theory Spec2Isabelle
  imports Complex_Main "HOL-Library.Word"
begin

section \<open>cpuproc: CPU time sampling and busy percentages (Linux build)\<close>

text \<open>
  A shallow embedding of the Go package \<^verbatim>\<open>cpuproc\<close> as built for Linux
  (\<^verbatim>\<open>cpuproc_linux.go\<close>, \<^verbatim>\<open>common_linux.go\<close> and the platform independent
  percentage engine).

  Conventions of the model:
  \<^item> \<^verbatim>\<open>float64\<close> is modelled by \<^typ>\<open>real\<close>: the finite values, with exact
    arithmetic and no rounding. The percentage engine is also given on \<^verbatim>\<open>float64\<close>
    values with the infinities and NaN, to state what it does outside the finite values.
  \<^item> \<^verbatim>\<open>uint64\<close>, \<^verbatim>\<open>int64\<close>, \<^verbatim>\<open>uint32\<close>, \<^verbatim>\<open>int32\<close> values that the code computes with
    are words; \<^verbatim>\<open>time.Duration\<close> and clock readings are integers (nanoseconds).
  \<^item> A Go \<^verbatim>\<open>error\<close> return is \<open>Inl\<close> of an \<open>error\<close>; a run-time panic (index or
    slice bounds out of range) is a value of its own, so that "returns an error" and
    "panics" are different results.
  \<^item> What the operating system supplies (file contents, the clock, system calls) is
    an explicit argument. A file is \<open>error + string\<close>: the error of \<^verbatim>\<open>os.Open\<close>, or the
    bytes of the file; a file that opens is read to its end without an I/O error.
  \<^item> \<^verbatim>\<open>strconv.ParseFloat\<close> belongs to the Go standard library; it is an argument
    \<open>pf\<close> of every function that calls it, of type \<open>string \<Rightarrow> error + real\<close>.
\<close>

subsection \<open>Errors and panics\<close>

datatype num_error = ErrSyntax | ErrRange

datatype error =
    StatNoCpuInfo              \<comment> \<open>"stat does not contain cpu info"\<close>
  | NotContainCpu              \<comment> \<open>"not contain cpu"\<close>
  | NumError string num_error  \<comment> \<open>\<^verbatim>\<open>*strconv.NumError\<close>: the input and the cause\<close>
  | TwoCPUCounts nat nat       \<comment> \<open>"received two CPU counts: %d != %d"\<close>
  | LastTimesNil               \<comment> \<open>"error getting times for cpu percent. lastTimes was nil"\<close>
  | WrongBtimeFormat           \<comment> \<open>"wrong btime format"\<close>
  | BtimeNotFound              \<comment> \<open>"could not find btime"\<close>
  | WrongUptimeFormat          \<comment> \<open>"wrong uptime format"\<close>
  | ErrPermission              \<comment> \<open>an OS error for which \<^verbatim>\<open>os.IsPermission\<close> holds\<close>
  | ErrNotExist                \<comment> \<open>any other OS error of \<^verbatim>\<open>os.Open\<close>\<close>
  | SysinfoFailed              \<comment> \<open>the error of \<^verbatim>\<open>syscall.Sysinfo\<close>\<close>
  | ContextDone                \<comment> \<open>\<^verbatim>\<open>ctx.Err()\<close> of a cancelled context\<close>

datatype panic = IndexOutOfRange | SliceBoundsOutOfRange

datatype failure = Error error | Panic panic

definition bnd :: "'e + 'a \<Rightarrow> ('a \<Rightarrow> 'e + 'b) \<Rightarrow> 'e + 'b" where
  "bnd m f = (case m of Inl e \<Rightarrow> Inl e | Inr x \<Rightarrow> f x)"

definition lift_err :: "error + 'a \<Rightarrow> failure + 'a" where
  "lift_err m = (case m of Inl e \<Rightarrow> Inl (Error e) | Inr x \<Rightarrow> Inr x)"

text \<open>\<^verbatim>\<open>xs[i]\<close> on a Go slice: a panic when \<open>i\<close> is out of range.\<close>

definition index :: "'a list \<Rightarrow> nat \<Rightarrow> failure + 'a" where
  "index xs i = (if i < length xs then Inr (xs ! i) else Inl (Panic IndexOutOfRange))"

subsection \<open>Strings\<close>

text \<open>
  Strings are byte lists. \<^verbatim>\<open>strings.Fields\<close> and \<^verbatim>\<open>strings.TrimSpace\<close> are modelled
  on the ASCII white space (tab, line feed, vertical tab, form feed, carriage return,
  space), which is what Go uses for input without bytes above 0x7f.
\<close>

definition isSpace :: "char \<Rightarrow> bool" where
  "isSpace c = (c = CHR 0x09 \<or> c = CHR 0x0A \<or> c = CHR 0x0B \<or> c = CHR 0x0C \<or> c = CHR 0x0D
                \<or> c = CHR '' '')"

fun fieldsFrom :: "string \<Rightarrow> string \<Rightarrow> string list" where
  "fieldsFrom cur [] = (if cur = [] then [] else [cur])"
| "fieldsFrom cur (c # cs) =
     (if isSpace c then (if cur = [] then fieldsFrom [] cs else cur # fieldsFrom [] cs)
      else fieldsFrom (cur @ [c]) cs)"

definition Fields :: "string \<Rightarrow> string list" where
  "Fields s = fieldsFrom [] s"

definition HasPrefix :: "string \<Rightarrow> string \<Rightarrow> bool" where
  "HasPrefix s p = (take (length p) s = p)"

definition Trim :: "string \<Rightarrow> string \<Rightarrow> string" where
  "Trim s cutset =
     rev (dropWhile (\<lambda>c. c \<in> set cutset) (rev (dropWhile (\<lambda>c. c \<in> set cutset) s)))"

definition TrimSpace :: "string \<Rightarrow> string" where
  "TrimSpace s = rev (dropWhile isSpace (rev (dropWhile isSpace s)))"

text \<open>\<^verbatim>\<open>bytes.IndexByte\<close> and \<^verbatim>\<open>bytes.LastIndexByte\<close>: \<open>-1\<close> when the byte is absent.\<close>

fun IndexByte :: "string \<Rightarrow> char \<Rightarrow> int" where
  "IndexByte [] c = -1"
| "IndexByte (x # xs) c =
     (if x = c then 0 else (let i = IndexByte xs c in if i < 0 then -1 else i + 1))"

definition LastIndexByte :: "string \<Rightarrow> char \<Rightarrow> int" where
  "LastIndexByte s c =
     (let i = IndexByte (rev s) c in if i < 0 then -1 else int (length s) - 1 - i)"

text \<open>
  The slice expression \<^verbatim>\<open>s[lo:hi]\<close>: a panic unless \<open>0 \<le> lo \<le> hi \<le> len(s)\<close>.
\<close>

definition slice :: "string \<Rightarrow> int \<Rightarrow> int \<Rightarrow> failure + string" where
  "slice s lo hi =
     (if 0 \<le> lo \<and> lo \<le> hi \<and> hi \<le> int (length s)
      then Inr (take (nat hi - nat lo) (drop (nat lo) s))
      else Inl (Panic SliceBoundsOutOfRange))"

subsection \<open>Parsing integers\<close>

definition isDigit :: "char \<Rightarrow> bool" where
  "isDigit c = (48 \<le> (of_char c :: nat) \<and> (of_char c :: nat) \<le> 57)"

definition digitsValue :: "string \<Rightarrow> nat" where
  "digitsValue s = foldl (\<lambda>acc c. acc * 10 + ((of_char c :: nat) - 48)) 0 s"

text \<open>
  \<^verbatim>\<open>strconv.ParseUint(s, 10, bits)\<close>: digits only, no sign, no underscore (the base
  is given); an empty input or any other byte is a syntax error, a value of
  \<open>2 ^ bits\<close> or more a range error.
\<close>

definition ParseUint :: "string \<Rightarrow> nat \<Rightarrow> error + nat" where
  "ParseUint s bits =
     (if s = [] \<or> \<not> list_all isDigit s then Inl (NumError s ErrSyntax)
      else if digitsValue s \<ge> 2 ^ bits then Inl (NumError s ErrRange)
      else Inr (digitsValue s))"

text \<open>
  \<^verbatim>\<open>strconv.ParseInt(s, 10, bits)\<close>: an optional sign, then digits; the value must
  lie in \<open>[-2 ^ (bits - 1), 2 ^ (bits - 1) - 1]\<close>.
\<close>

definition ParseInt :: "string \<Rightarrow> nat \<Rightarrow> error + int" where
  "ParseInt s bits =
     (if s = [] then Inl (NumError s ErrSyntax)
      else
        (let neg = (hd s = CHR ''-'');
             body = (if hd s = CHR ''+'' \<or> hd s = CHR ''-'' then tl s else s)
         in if body = [] \<or> \<not> list_all isDigit body then Inl (NumError s ErrSyntax)
            else if \<not> neg \<and> digitsValue body \<ge> 2 ^ (bits - 1) then Inl (NumError s ErrRange)
            else if neg \<and> digitsValue body > 2 ^ (bits - 1) then Inl (NumError s ErrRange)
            else Inr (if neg then - int (digitsValue body) else int (digitsValue body))))"

text \<open>
  A reader of unsigned decimal numerals with an optional fraction (\<open>100\<close>, \<open>50.25\<close>):
  on these \<^verbatim>\<open>strconv.ParseFloat\<close> returns the same number (up to rounding). It is used
  where a theorem is evaluated at a concrete input.
\<close>

definition decimalFloat :: "string \<Rightarrow> error + real" where
  "decimalFloat s =
     (let ip = takeWhile (\<lambda>c. c \<noteq> CHR ''.'') s;
          fp = drop (length ip + 1) s
      in if ip = [] \<or> \<not> list_all isDigit ip \<or> \<not> list_all isDigit fp
            \<or> (fp = [] \<and> length ip < length s)
         then Inl (NumError s ErrSyntax)
         else Inr (real (digitsValue ip) + real (digitsValue fp) / 10 ^ length fp))"

subsection \<open>Constants\<close>

text \<open>\<^verbatim>\<open>var ClocksPerSec = float64(100)\<close> and \<^verbatim>\<open>var clockTicks = 100\<close>.\<close>

definition ClocksPerSec :: real where
  "ClocksPerSec = 100"

definition clockTicks :: int where
  "clockTicks = 100"

subsection \<open>Snapshots\<close>

text \<open>
  The struct \<^verbatim>\<open>TimesStat\<close>. Its declaration is not among the sources; the fields
  are the ones that \<^verbatim>\<open>parseStatLine\<close> and \<^verbatim>\<open>getAllBusy\<close> use.
\<close>

record TimesStat =
  CPU :: string
  User :: real
  System :: real
  Idle :: real
  Nice :: real
  Iowait :: real
  Irq :: real
  Softirq :: real
  Steal :: real
  Guest :: real
  GuestNice :: real

text \<open>
  Modelled from the spec: the method \<^verbatim>\<open>TimesStat.Total\<close> is not among the sources.
  The specification gives
  \<open>total = user+nice+system+idle+iowait+irq+softirq+steal+guest+guestNice\<close>.
\<close>

definition Total :: "TimesStat \<Rightarrow> real" where
  "Total t = User t + Nice t + System t + Idle t + Iowait t + Irq t + Softirq t + Steal t
             + Guest t + GuestNice t"

text \<open>The zero value of the struct, with the given identifier.\<close>

definition zeroTimes :: "string \<Rightarrow> TimesStat" where
  "zeroTimes c = \<lparr>CPU = c, User = 0, System = 0, Idle = 0, Nice = 0, Iowait = 0, Irq = 0,
                  Softirq = 0, Steal = 0, Guest = 0, GuestNice = 0\<rparr>"

subsection \<open>The percentage engine\<close>

text \<open>\<^verbatim>\<open>runtime.GOOS\<close> of the build that is modelled.\<close>

definition GOOS :: string where
  "GOOS = ''linux''"

definition getAllBusy :: "TimesStat \<Rightarrow> real \<times> real" where
  "getAllBusy t =
     (let tot = Total t;
          tot = (if GOOS = ''linux'' then tot - Guest t - GuestNice t else tot);
          busy = tot - Idle t - Iowait t
      in (tot, busy))"

definition calculateBusy :: "TimesStat \<Rightarrow> TimesStat \<Rightarrow> real" where
  "calculateBusy t1 t2 =
     (let (t1All, t1Busy) = getAllBusy t1;
          (t2All, t2Busy) = getAllBusy t2
      in if t2Busy \<le> t1Busy then 0
         else if t2All \<le> t1All then 100
         else min 100 (max 0 ((t2Busy - t1Busy) / (t2All - t1All) * 100)))"

text \<open>
  The loop \<^verbatim>\<open>for i, t := range t2 { ret[i] = calculateBusy(t1[i], t) }\<close> runs after
  the length check, so \<open>t1[i]\<close> is in range; it is the map over the paired lists.
\<close>

definition calculateAllBusy :: "TimesStat list \<Rightarrow> TimesStat list \<Rightarrow> error + real list" where
  "calculateAllBusy t1 t2 =
     (if length t1 \<noteq> length t2 then Inl (TwoCPUCounts (length t1) (length t2))
      else Inr (map (\<lambda>(a, b). calculateBusy a b) (zip t1 t2)))"

subsection \<open>The engine on float64 values\<close>


















subsection \<open>The stat-line parser\<close>

definition parseStatLine :: "(string \<Rightarrow> error + real) \<Rightarrow> string \<Rightarrow> error + TimesStat" where
  "parseStatLine pf line =
     (let fields = Fields line in
      if length fields < 8 then Inl StatNoCpuInfo
      else if \<not> HasPrefix (fields ! 0) ''cpu'' then Inl NotContainCpu
      else
        (let cpu = fields ! 0;
             cpu = (if cpu = ''cpu'' then ''cpu-total'' else cpu)
         in bnd (pf (fields ! 1)) (\<lambda>user.
            bnd (pf (fields ! 2)) (\<lambda>nice.
            bnd (pf (fields ! 3)) (\<lambda>system.
            bnd (pf (fields ! 4)) (\<lambda>idle.
            bnd (pf (fields ! 5)) (\<lambda>iowait.
            bnd (pf (fields ! 6)) (\<lambda>irq.
            bnd (pf (fields ! 7)) (\<lambda>softirq.
            (let ct = \<lparr>CPU = cpu, User = user / ClocksPerSec, System = system / ClocksPerSec,
                        Idle = idle / ClocksPerSec, Nice = nice / ClocksPerSec,
                        Iowait = iowait / ClocksPerSec, Irq = irq / ClocksPerSec,
                        Softirq = softirq / ClocksPerSec, Steal = 0, Guest = 0,
                        GuestNice = 0\<rparr>
             in bnd (if length fields > 8
                     then bnd (pf (fields ! 8)) (\<lambda>steal. Inr (ct\<lparr>Steal := steal / ClocksPerSec\<rparr>))
                     else Inr ct) (\<lambda>ct.
                bnd (if length fields > 9
                     then bnd (pf (fields ! 9)) (\<lambda>guest. Inr (ct\<lparr>Guest := guest / ClocksPerSec\<rparr>))
                     else Inr ct) (\<lambda>ct.
                bnd (if length fields > 10
                     then bnd (pf (fields ! 10))
                            (\<lambda>guestNice. Inr (ct\<lparr>GuestNice := guestNice / ClocksPerSec\<rparr>))
                     else Inr ct) Inr))))))))))))"

subsection \<open>Reading files\<close>

text \<open>
  The successive results of \<^verbatim>\<open>bufio.Reader.ReadString('\n')\<close> on a file: every
  chunk but the last ends with the line feed; the last one ends with it or is a
  non-empty rest, after which the reader is at the end of the file.
\<close>

fun chunks :: "string \<Rightarrow> string list" where
  "chunks [] = []"
| "chunks (c # cs) =
     (if c = CHR 0x0A then [c] # chunks cs
      else (case chunks cs of [] \<Rightarrow> [[c]] | l # ls \<Rightarrow> (c # l) # ls))"

text \<open>
  The loop of \<^verbatim>\<open>ReadLinesOffsetN\<close>, at counter \<open>i\<close>, over the chunks that are left.
  A chunk without line feed is the read that returns \<^verbatim>\<open>io.EOF\<close> with a non-empty
  line; no chunk left is the read that returns \<^verbatim>\<open>io.EOF\<close> with an empty line.
\<close>

fun readLinesLoop :: "nat \<Rightarrow> int \<Rightarrow> nat \<Rightarrow> string list \<Rightarrow> string list" where
  "readLinesLoop offset n i [] = []"
| "readLinesLoop offset n i (l # ls) =
     (if int i < n + int offset \<or> n < 0 then
        (if last l \<noteq> CHR 0x0A then [Trim l [CHR 0x0A]]
         else if i < offset then readLinesLoop offset n (i + 1) ls
         else Trim l [CHR 0x0A] # readLinesLoop offset n (i + 1) ls)
      else [])"

text \<open>
  The result of \<^verbatim>\<open>ReadLinesOffsetN\<close> is the pair of Go: on a failed open the lines
  are \<^verbatim>\<open>[]string{""}\<close> and the error is set.
\<close>

definition ReadLinesOffsetN :: "error + string \<Rightarrow> nat \<Rightarrow> int \<Rightarrow> string list \<times> error option" where
  "ReadLinesOffsetN file offset n =
     (case file of
        Inl err \<Rightarrow> ([[]], Some err)
      | Inr content \<Rightarrow> (readLinesLoop offset n 0 (chunks content), None))"

definition ReadLines :: "error + string \<Rightarrow> string list \<times> error option" where
  "ReadLines file = ReadLinesOffsetN file 0 (-1)"

text \<open>
  The loop of \<^verbatim>\<open>ReadLine\<close>: the first line, line feed included, that starts with
  the prefix; a last line without line feed is never looked at.
\<close>

fun readLineLoop :: "string \<Rightarrow> string list \<Rightarrow> string" where
  "readLineLoop prefix [] = []"
| "readLineLoop prefix (l # ls) =
     (if last l \<noteq> CHR 0x0A then []
      else if HasPrefix l prefix then l
      else readLineLoop prefix ls)"

definition ReadLine :: "error + string \<Rightarrow> string \<Rightarrow> error + string" where
  "ReadLine file prefix =
     (case file of Inl err \<Rightarrow> Inl err | Inr content \<Rightarrow> Inr (readLineLoop prefix (chunks content)))"

subsection \<open>The sampler\<close>

text \<open>
  \<^verbatim>\<open>TimesWithContext\<close>; \<open>stat\<close> is the file that \<^verbatim>\<open>HostProcWithContext(ctx, "stat")\<close>
  names, as it is when the sample is taken. The error result is always \<^verbatim>\<open>nil\<close>.
\<close>

fun leadingCpuLines :: "string list \<Rightarrow> string list" where
  "leadingCpuLines [] = []"
| "leadingCpuLines (line # rest) =
     (if \<not> HasPrefix line ''cpu'' then [] else line # leadingCpuLines rest)"

fun parsedLines :: "(string \<Rightarrow> error + real) \<Rightarrow> string list \<Rightarrow> TimesStat list" where
  "parsedLines pf [] = []"
| "parsedLines pf (line # rest) =
     (case parseStatLine pf line of
        Inl err \<Rightarrow> parsedLines pf rest
      | Inr ct \<Rightarrow> ct # parsedLines pf rest)"

definition TimesWithContext ::
  "(string \<Rightarrow> error + real) \<Rightarrow> error + string \<Rightarrow> bool \<Rightarrow> error + TimesStat list" where
  "TimesWithContext pf stat percpu =
     (if percpu then
        (let (statlines, err) = ReadLines stat in
         if err \<noteq> None \<or> length statlines < 2 then Inr []
         else Inr (parsedLines pf (leadingCpuLines (tl statlines))))
      else
        (let (lines, _) = ReadLinesOffsetN stat 0 1 in Inr (parsedLines pf lines)))"

subsection \<open>Percentages\<close>

text \<open>
  The shared \<^verbatim>\<open>lastCPUPercent\<close>. A slot is \<open>None\<close> while the slice is \<^verbatim>\<open>nil\<close>.
\<close>

record lastPercent =
  lastCPUTimes :: "TimesStat list option"
  lastPerCPUTimes :: "TimesStat list option"

text \<open>
  \<^verbatim>\<open>percentUsedFromLastCallWithContext\<close>: the result and the cache after the call.
\<close>

definition percentUsedFromLastCallWithContext ::
  "(string \<Rightarrow> error + real) \<Rightarrow> error + string \<Rightarrow> bool \<Rightarrow> lastPercent
     \<Rightarrow> (error + real list) \<times> lastPercent" where
  "percentUsedFromLastCallWithContext pf stat percpu s =
     (case TimesWithContext pf stat percpu of
        Inl err \<Rightarrow> (Inl err, s)
      | Inr cpuTimes \<Rightarrow>
          (let (lastTimes, s') =
                 (if percpu then (lastPerCPUTimes s, s\<lparr>lastPerCPUTimes := Some cpuTimes\<rparr>)
                  else (lastCPUTimes s, s\<lparr>lastCPUTimes := Some cpuTimes\<rparr>))
           in case lastTimes of
                None \<Rightarrow> (Inl LastTimesNil, s')
              | Some lt \<Rightarrow> (calculateAllBusy lt cpuTimes, s')))"

text \<open>
  \<^verbatim>\<open>PercentWithContext\<close>. The interval is a \<^verbatim>\<open>time.Duration\<close>. \<open>stat1\<close> and \<open>stat2\<close>
  are the stat file at the first and at the second sample (in since-last-call mode
  only \<open>stat1\<close> is read); \<open>sleep\<close> is what \<^verbatim>\<open>Sleep(ctx, interval)\<close> returns: \<open>None\<close>
  when the timer fires, the error of the context when the context is done first.
\<close>

definition PercentWithContext ::
  "(string \<Rightarrow> error + real) \<Rightarrow> error + string \<Rightarrow> error option \<Rightarrow> error + string \<Rightarrow> int \<Rightarrow> bool
     \<Rightarrow> lastPercent \<Rightarrow> (error + real list) \<times> lastPercent" where
  "PercentWithContext pf stat1 sleep stat2 interval percpu s =
     (if interval \<le> 0 then percentUsedFromLastCallWithContext pf stat1 percpu s
      else
        (case TimesWithContext pf stat1 percpu of
           Inl err \<Rightarrow> (Inl err, s)
         | Inr cpuTimes1 \<Rightarrow>
             (case sleep of
                Some err \<Rightarrow> (Inl err, s)
              | None \<Rightarrow>
                  (case TimesWithContext pf stat2 percpu of
                     Inl err \<Rightarrow> (Inl err, s)
                   | Inr cpuTimes2 \<Rightarrow> (calculateAllBusy cpuTimes1 cpuTimes2, s)))))"

text \<open>
  \<^verbatim>\<open>Percent\<close> passes \<^verbatim>\<open>context.Background()\<close>, which is never done: the sleep
  returns \<^verbatim>\<open>nil\<close>.
\<close>

definition Percent ::
  "(string \<Rightarrow> error + real) \<Rightarrow> error + string \<Rightarrow> error + string \<Rightarrow> int \<Rightarrow> bool
     \<Rightarrow> lastPercent \<Rightarrow> (error + real list) \<times> lastPercent" where
  "Percent pf stat1 stat2 interval percpu s =
     PercentWithContext pf stat1 None stat2 interval percpu s"

definition PercentTotal ::
  "(string \<Rightarrow> error + real) \<Rightarrow> error + string \<Rightarrow> error + string \<Rightarrow> int
     \<Rightarrow> lastPercent \<Rightarrow> (failure + real) \<times> lastPercent" where
  "PercentTotal pf stat1 stat2 interval s =
     (case Percent pf stat1 stat2 interval False s of
        (Inl err, s') \<Rightarrow> (Inl (Error err), s')
      | (Inr rv, s') \<Rightarrow> (index rv 0, s'))"

text \<open>
  \<^verbatim>\<open>init\<close> fills both slots from a first sample of each mode; \<open>stat_a\<close> and \<open>stat_b\<close>
  are the stat file at the two reads.
\<close>

definition init :: "(string \<Rightarrow> error + real) \<Rightarrow> error + string \<Rightarrow> error + string \<Rightarrow> lastPercent" where
  "init pf stat_a stat_b =
     \<lparr>lastCPUTimes = (case TimesWithContext pf stat_a False of Inl _ \<Rightarrow> None | Inr t \<Rightarrow> Some t),
      lastPerCPUTimes = (case TimesWithContext pf stat_b True of Inl _ \<Rightarrow> None | Inr t \<Rightarrow> Some t)\<rparr>"

subsection \<open>What the operating system supplies\<close>

text \<open>
  The state of the host at the instant of a call. \<open>virtualization\<close> is the pair
  (system, role) that \<^verbatim>\<open>VirtualizationWithContext\<close> reports (its error is always
  \<^verbatim>\<open>nil\<close>); \<open>procStat\<close>, \<open>procUptime\<close> and \<open>pidStat\<close> are the files \<^verbatim>\<open>stat\<close>, \<^verbatim>\<open>uptime\<close>
  and \<^verbatim>\<open>[pid]/stat\<close> under the proc root; \<open>sysinfoUptime\<close> is \<^verbatim>\<open>info.Uptime\<close> of
  \<^verbatim>\<open>syscall.Sysinfo\<close>; \<open>nowNano\<close> is \<^verbatim>\<open>time.Now().UnixNano()\<close>; \<open>priority\<close> is what
  \<^verbatim>\<open>unix.Getpriority\<close> returns for the process.
\<close>

record world =
  virtualization :: "string \<times> string"
  procStat :: "error + string"
  procUptime :: "error + string"
  pidStat :: "error + string"
  sysinfoUptime :: "error + int"
  nowNano :: int
  priority :: int

subsection \<open>Integer conversions\<close>

text \<open>Go's integer division truncates towards zero.\<close>

definition quot :: "int \<Rightarrow> int \<Rightarrow> int" where
  "quot a b = sgn a * sgn b * (\<bar>a\<bar> div \<bar>b\<bar>)"

text \<open>
  \<^verbatim>\<open>uint64(x)\<close> of a \<^verbatim>\<open>float64\<close>: the fraction is discarded. For a value outside
  \<^verbatim>\<open>uint64\<close> Go leaves the result to the implementation; the model wraps.
\<close>

definition uint64_of_float :: "real \<Rightarrow> 64 word" where
  "uint64_of_float x = word_of_int (if 0 \<le> x then \<lfloor>x\<rfloor> else \<lceil>x\<rceil>)"

subsection \<open>Boot time\<close>

definition IsPermission :: "error \<Rightarrow> bool" where
  "IsPermission err = (err = ErrPermission)"

definition handleBootTimeFileReadErr :: "world \<Rightarrow> error \<Rightarrow> error + 64 word" where
  "handleBootTimeFileReadErr w err =
     (if IsPermission err then
        (case sysinfoUptime w of
           Inl err \<Rightarrow> Inl err
         | Inr uptime \<Rightarrow>
             (let currentTime = quot (nowNano w) 1000000000;
                  t = currentTime - uptime
              in Inr (word_of_int t)))
      else Inl err)"

definition readBootTimeStat :: "world \<Rightarrow> error + 64 word" where
  "readBootTimeStat w =
     (case ReadLine (procStat w) ''btime'' of
        Inl err \<Rightarrow> handleBootTimeFileReadErr w err
      | Inr line \<Rightarrow>
          (if HasPrefix line ''btime'' then
             (let f = Fields line in
              if length f \<noteq> 2 then Inl WrongBtimeFormat
              else bnd (ParseInt (f ! 1) 64) (\<lambda>b. Inr (word_of_int b)))
           else Inl BtimeNotFound))"

text \<open>
  \<^verbatim>\<open>BootTimeWithContext\<close>: the result, and \<^verbatim>\<open>cachedBootTime\<close> after the call
  (\<open>cached\<close> is its value before).
\<close>

definition BootTimeWithContext ::
  "(string \<Rightarrow> error + real) \<Rightarrow> world \<Rightarrow> bool \<Rightarrow> 64 word \<Rightarrow> (failure + 64 word) \<times> 64 word" where
  "BootTimeWithContext pf w enableCache cached =
     (if enableCache \<and> cached \<noteq> 0 then (Inr cached, cached)
      else
        (let (system, role) = virtualization w;
             useStatFile = (if system = ''lxc'' \<and> role = ''guest'' then False
                            else if system = ''docker'' \<and> role = ''guest'' then False
                            else True);
             statStep = (if useStatFile then
                           (case readBootTimeStat w of
                              Inl err \<Rightarrow> Inl err
                            | Inr t \<Rightarrow> Inr (if enableCache then t else cached))
                         else Inr cached)
         in case statStep of
              Inl err \<Rightarrow> (Inl (Error err), cached)
            | Inr cached1 \<Rightarrow>
                (let (lines, err) = ReadLines (procUptime w) in
                 case err of
                   Some e \<Rightarrow> (lift_err (handleBootTimeFileReadErr w e), cached1)
                 | None \<Rightarrow>
                     (if length lines \<noteq> 1 then (Inl (Error WrongUptimeFormat), cached1)
                      else
                        (case index (Fields (lines ! 0)) 0 of
                           Inl p \<Rightarrow> (Inl p, cached1)
                         | Inr f0 \<Rightarrow>
                             (case pf f0 of
                                Inl e \<Rightarrow> (Inl (Error e), cached1)
                              | Inr b \<Rightarrow>
                                  (let currentTime = real_of_int (nowNano w) / 1000000000;
                                       t = currentTime - b
                                   in (Inr (uint64_of_float t),
                                       if enableCache then uint64_of_float t else cached1))))))))"

subsection \<open>Process sampling\<close>

record PageFaultsStat =
  MinorFaults :: "64 word"
  MajorFaults :: "64 word"
  ChildMinorFaults :: "64 word"
  ChildMajorFaults :: "64 word"

text \<open>
  The handle. \<open>set'\<close> is the field \<^verbatim>\<open>set\<close>, a \<^verbatim>\<open>unix.CPUSet\<close>: the bits of the
  affinity mask. \<^verbatim>\<open>Count\<close> is the number of bits that are set.
\<close>

record proc =
  set' :: "bool list"
  pid :: int

definition Count :: "bool list \<Rightarrow> nat" where
  "Count s = length (filter (\<lambda>b. b) s)"

text \<open>
  \<^verbatim>\<open>NewProcess\<close>; \<open>affinity\<close> is what \<^verbatim>\<open>unix.SchedGetaffinity(0, &p.set)\<close> yields.
  \<open>None\<close> is the \<^verbatim>\<open>nil\<close> handle.
\<close>

definition NewProcess :: "error + bool list \<Rightarrow> int \<Rightarrow> proc option" where
  "NewProcess affinity pid_arg =
     (case affinity of Inl err \<Rightarrow> None | Inr s \<Rightarrow> Some \<lparr>set' = s, pid = pid_arg\<rparr>)"

definition splitProcStat :: "string \<Rightarrow> failure + string list" where
  "splitProcStat content =
     (let nameStart = IndexByte content (CHR ''('');
          nameEnd = LastIndexByte content (CHR '')'')
      in bnd (slice content (nameEnd + 2) (int (length content))) (\<lambda>rest.
         (let restFields = Fields rest in
          bnd (slice content (nameStart + 1) nameEnd) (\<lambda>name.
          bnd (slice content 0 nameStart) (\<lambda>pidBytes.
          (let pid = TrimSpace pidBytes
           in Inr ([[], pid, name] @ restFields)))))))"

text \<open>
  The values that \<^verbatim>\<open>fillFromTIDStatWithContext\<close> returns beside the error. \<open>cpuTimes\<close>
  is a \<^verbatim>\<open>cpu.TimesStat\<close> of gopsutil, a struct with the same fields; of these the call
  sets the identifier, \<open>User\<close>, \<open>System\<close> and \<open>Iowait\<close>, so that its \<^verbatim>\<open>Total()\<close> is
  their sum, as is \<open>Total\<close> here.
\<close>

record statResult =
  terminal :: "64 word"
  ppid :: "32 word"
  cpuTimes :: TimesStat
  createTime :: "64 word"
  rtpriority :: "32 word"
  nice :: "32 word"
  faults :: PageFaultsStat

text \<open>\<^verbatim>\<open>var enableBootTimeCache bool\<close> is never assigned: it is \<^verbatim>\<open>false\<close>.\<close>

definition enableBootTimeCache :: bool where
  "enableBootTimeCache = False"

text \<open>
  \<^verbatim>\<open>fillFromTIDStatWithContext\<close>. The thread id only selects the path of the file
  that is read; the file is \<open>pidStat w\<close>. The boot time is looked up without the
  cache (\<open>enableBootTimeCache\<close>), so \<^verbatim>\<open>cachedBootTime\<close> stays as it is; an error
  of the lookup is dropped and leaves the boot time 0, a panic of the lookup is a
  panic of the call. \<^verbatim>\<open>createTime\<close> is an \<^verbatim>\<open>int64\<close>, kept as its 64 bits.
\<close>

definition fillFromTIDStatWithContext ::
  "(string \<Rightarrow> error + real) \<Rightarrow> world \<Rightarrow> 64 word \<Rightarrow> proc \<Rightarrow> failure + statResult" where
  "fillFromTIDStatWithContext pf w cached p =
     bnd (lift_err (pidStat w)) (\<lambda>contents.
     bnd (splitProcStat contents) (\<lambda>fields.
     bnd (index fields 7) (\<lambda>f7. bnd (lift_err (ParseUint f7 64)) (\<lambda>terminal.
     bnd (index fields 4) (\<lambda>f4. bnd (lift_err (ParseInt f4 32)) (\<lambda>ppid.
     bnd (index fields 14) (\<lambda>f14. bnd (lift_err (pf f14)) (\<lambda>utime.
     bnd (index fields 15) (\<lambda>f15. bnd (lift_err (pf f15)) (\<lambda>stime.
     (let iotime = (if length fields > 42
                    then (case pf (fields ! 42) of Inl err \<Rightarrow> 0 | Inr x \<Rightarrow> x)
                    else 0);
          cpuTimes = (zeroTimes ''cpu'')
                       \<lparr>User := utime / real_of_int clockTicks,
                        System := stime / real_of_int clockTicks,
                        Iowait := iotime / real_of_int clockTicks\<rparr>
      in bnd (case fst (BootTimeWithContext pf w enableBootTimeCache cached) of
                Inl (Panic pn) \<Rightarrow> Inl (Panic pn)
              | Inl (Error err) \<Rightarrow> Inr 0
              | Inr t \<Rightarrow> Inr t) (\<lambda>bootTime.
         bnd (index fields 22) (\<lambda>f22. bnd (lift_err (ParseUint f22 64)) (\<lambda>t.
         (let ctime = (word_of_nat t div word_of_int clockTicks) + bootTime;
              createTime = ctime * 1000
          in bnd (index fields 18) (\<lambda>f18. bnd (lift_err (ParseInt f18 32)) (\<lambda>rtpriority.
             (let rtpriority = (if rtpriority < 0 then rtpriority * (-1) - 1 else 0);
                  nice = word_of_int (priority w)
              in bnd (index fields 10) (\<lambda>f10. bnd (lift_err (ParseUint f10 64)) (\<lambda>minFault.
                 bnd (index fields 11) (\<lambda>f11. bnd (lift_err (ParseUint f11 64)) (\<lambda>cMinFault.
                 bnd (index fields 12) (\<lambda>f12. bnd (lift_err (ParseUint f12 64)) (\<lambda>majFault.
                 bnd (index fields 13) (\<lambda>f13. bnd (lift_err (ParseUint f13 64)) (\<lambda>cMajFault.
                 Inr \<lparr>terminal = word_of_nat terminal, ppid = word_of_int ppid,
                      cpuTimes = cpuTimes, createTime = createTime,
                      rtpriority = word_of_int rtpriority, nice = nice,
                      faults = \<lparr>MinorFaults = word_of_nat minFault,
                                MajorFaults = word_of_nat majFault,
                                ChildMinorFaults = word_of_nat cMinFault,
                                ChildMajorFaults = word_of_nat cMajFault\<rparr>\<rparr>
                 ))))))))))))))))))))))))))"

definition fillFromStatWithContext ::
  "(string \<Rightarrow> error + real) \<Rightarrow> world \<Rightarrow> 64 word \<Rightarrow> proc \<Rightarrow> failure + statResult" where
  "fillFromStatWithContext pf w cached p = fillFromTIDStatWithContext pf w cached p"

text \<open>The method \<^verbatim>\<open>(*proc).TimesWithContext\<close>.\<close>

definition proc_TimesWithContext ::
  "(string \<Rightarrow> error + real) \<Rightarrow> world \<Rightarrow> 64 word \<Rightarrow> proc \<Rightarrow> failure + TimesStat" where
  "proc_TimesWithContext pf w cached p =
     bnd (fillFromStatWithContext pf w cached p) (\<lambda>r. Inr (cpuTimes r))"

definition createTimeWithContext ::
  "(string \<Rightarrow> error + real) \<Rightarrow> world \<Rightarrow> 64 word \<Rightarrow> proc \<Rightarrow> failure + 64 word" where
  "createTimeWithContext pf w cached p =
     bnd (fillFromStatWithContext pf w cached p) (\<lambda>r. Inr (createTime r))"

subsection \<open>The percentage of a process\<close>

text \<open>
  \<^verbatim>\<open>time.Since(created).Seconds()\<close> for \<open>created\<close> and the clock \<open>now\<close> in nanoseconds
  since the epoch: the difference is a \<^verbatim>\<open>time.Duration\<close>, which saturates at the
  ends of \<^verbatim>\<open>int64\<close>.
\<close>

definition sinceSeconds :: "int \<Rightarrow> int \<Rightarrow> real" where
  "sinceSeconds now created =
     real_of_int (max (- (2 ^ 63)) (min (2 ^ 63 - 1) (now - created))) / 1000000000"

text \<open>
  \<^verbatim>\<open>CPUPercentWithContext\<close>: \<open>w1\<close> is the host at the read for the creation time,
  \<open>w2\<close> at the read for the CPU times, \<open>now\<close> the clock at \<^verbatim>\<open>time.Since\<close>.
  \<^verbatim>\<open>crt_time*int64(time.Millisecond)\<close> is a product of \<^verbatim>\<open>int64\<close>.
\<close>

definition CPUPercentWithContext ::
  "(string \<Rightarrow> error + real) \<Rightarrow> world \<Rightarrow> world \<Rightarrow> int \<Rightarrow> 64 word \<Rightarrow> proc \<Rightarrow> failure + real" where
  "CPUPercentWithContext pf w1 w2 now cached p =
     bnd (createTimeWithContext pf w1 cached p) (\<lambda>crt_time.
     bnd (proc_TimesWithContext pf w2 cached p) (\<lambda>cput.
     (let created = sint (crt_time * 1000000);
          totalTime = sinceSeconds now created
      in if totalTime \<le> 0 then Inr 0
         else Inr (100 * Total cput / totalTime))))"

definition cpuPercent ::
  "(string \<Rightarrow> error + real) \<Rightarrow> world \<Rightarrow> world \<Rightarrow> int \<Rightarrow> 64 word \<Rightarrow> proc \<Rightarrow> failure + real" where
  "cpuPercent pf w1 w2 now cached p = CPUPercentWithContext pf w1 w2 now cached p"

definition CPUPercent ::
  "(string \<Rightarrow> error + real) \<Rightarrow> world \<Rightarrow> world \<Rightarrow> int \<Rightarrow> 64 word \<Rightarrow> proc \<Rightarrow> failure + real" where
  "CPUPercent pf w1 w2 now cached p =
     (let total = Count (set' p) in
      bnd (cpuPercent pf w1 w2 now cached p) (\<lambda>cpuPercent.
      Inr (cpuPercent / (real total * 100))))"

subsection \<open>Sample inputs\<close>

text \<open>Two readings of the stat file, an empty cache, and snapshots.\<close>

definition statSample1 :: string where
  "statSample1 = ''cpu 100 0 50 800 10 0 0\<newline>''"

definition statSample2 :: string where
  "statSample2 = ''cpu 200 0 100 1600 20 0 0\<newline>''"

definition emptyCache :: lastPercent where
  "emptyCache = \<lparr>lastCPUTimes = None, lastPerCPUTimes = None\<rparr>"

definition busyA :: TimesStat where
  "busyA = (zeroTimes ''cpu0'')\<lparr>User := 2\<rparr>"

definition busyB :: TimesStat where
  "busyB = (zeroTimes ''cpu0'')\<lparr>User := 1\<rparr>"

definition busyC :: TimesStat where
  "busyC = (zeroTimes ''cpu0'')\<lparr>User := 1, Idle := 5\<rparr>"

definition busyD :: TimesStat where
  "busyD = (zeroTimes ''cpu0'')\<lparr>User := 2, Idle := 3\<rparr>"

definition statPerCore :: string where
  "statPerCore = ''cpu 2 4 6 8 10 12 14\<newline>cpu0 1 2 3 4 5 6 7\<newline>cpu1 1 2 3 4 5 6 7 8 9 10\<newline>intr 12345 5\<newline>''"

text \<open>The cache slot of a sampling mode: per-core or aggregate.\<close>

definition slot :: "bool \<Rightarrow> lastPercent \<Rightarrow> TimesStat list option" where
  "slot percpu s = (if percpu then lastPerCPUTimes s else lastCPUTimes s)"

text \<open>A host that is no container, with a process record, and a handle with two CPUs.\<close>

definition hostWorld :: world where
  "hostWorld = \<lparr>virtualization = ([], []),
                 procStat = Inr ''cpu 100 0 50 800 10 0 0\<newline>btime 1000\<newline>'',
                 procUptime = Inr ''50.00 100.00\<newline>'',
                 pidStat = Inr ''1 (a b) S 0 1 1 0 -1 4194560 10 20 30 40 1500 0 0 0 20 0 1 0 4000 1000 2 3'',
                 sysinfoUptime = Inr 50,
                 nowNano = 2000000000000,
                 priority = 20\<rparr>"

definition twoCores :: proc where
  "twoCores = \<lparr>set' = [True, True], pid = 1\<rparr>"

text \<open>The two samples as snapshots, and a cache whose aggregate slot holds the first.\<close>

definition sampleTimes1 :: "TimesStat list" where
  "sampleTimes1 = [\<lparr>CPU = ''cpu-total'', User = 1, System = 1 / 2, Idle = 8, Nice = 0,
                     Iowait = 1 / 10, Irq = 0, Softirq = 0, Steal = 0, Guest = 0,
                     GuestNice = 0\<rparr>]"

definition sampleTimes2 :: "TimesStat list" where
  "sampleTimes2 = [\<lparr>CPU = ''cpu-total'', User = 2, System = 1, Idle = 16, Nice = 0,
                     Iowait = 1 / 5, Irq = 0, Softirq = 0, Steal = 0, Guest = 0,
                     GuestNice = 0\<rparr>]"

definition filledCache :: lastPercent where
  "filledCache = \<lparr>lastCPUTimes = Some sampleTimes1, lastPerCPUTimes = None\<rparr>"


section \<open>Properties\<close>

subsection \<open>Evaluation of the definitions\<close>

lemmas string_eval = Fields_def isSpace_def HasPrefix_def Trim_def TrimSpace_def
lemmas number_eval = decimalFloat_def ParseInt_def ParseUint_def isDigit_def digitsValue_def
lemmas read_eval = ReadLinesOffsetN_def ReadLines_def ReadLine_def
lemmas busy_eval = calculateAllBusy_def calculateBusy_def getAllBusy_def Total_def GOOS_def

subsection \<open>The percentage engine\<close>

lemma getAllBusy_linux:
  "getAllBusy t = (Total t - Guest t - GuestNice t,
                   Total t - Guest t - GuestNice t - Idle t - Iowait t)"
  by (simp add: getAllBusy_def GOOS_def Let_def)






subsection \<open>Finite and non-finite counters\<close>





text \<open>
  Claim C4. With the total and the busy time as \<open>getAllBusy\<close> computes them on Linux
  (guest and guest-nice time taken off the total, busy = total - idle - iowait):
  when the busy time of the second snapshot is not above that of the first the result
  is exactly 0, and when it is above but the total of the second snapshot is not above
  that of the first the result is exactly 100.
\<close>

theorem calculateBusy_regression_and_saturation:
  "getAllBusy t = (Total t - Guest t - GuestNice t,
                   Total t - Guest t - GuestNice t - Idle t - Iowait t)
   \<and> (snd (getAllBusy t2) \<le> snd (getAllBusy t1) \<longrightarrow> calculateBusy t1 t2 = 0)
   \<and> (snd (getAllBusy t1) < snd (getAllBusy t2) \<and> fst (getAllBusy t2) \<le> fst (getAllBusy t1)
        \<longrightarrow> calculateBusy t1 t2 = 100)"
  by (simp add: getAllBusy_linux calculateBusy_def)

text \<open>
  Claim C5. For two snapshot sequences of unequal length \<open>calculateAllBusy\<close> fails
  with the error that reports the two counts, and returns no percentages: there is
  no truncation to the shorter sequence.
\<close>

theorem calculateAllBusy_length_mismatch:
  "length t1 \<noteq> length t2 \<Longrightarrow>
     calculateAllBusy t1 t2 = Inl (TwoCPUCounts (length t1) (length t2))
     \<and> (\<forall>ps. calculateAllBusy t1 t2 \<noteq> Inr ps)"
  by (simp add: calculateAllBusy_def)

subsection \<open>The samples, evaluated\<close>

lemma parse_sample1:
  "parseStatLine decimalFloat ''cpu 100 0 50 800 10 0 0'' =
     Inr \<lparr>CPU = ''cpu-total'', User = 1, System = 1 / 2, Idle = 8, Nice = 0, Iowait = 1 / 10,
          Irq = 0, Softirq = 0, Steal = 0, Guest = 0, GuestNice = 0\<rparr>"
  by (simp add: parseStatLine_def string_eval number_eval bnd_def ClocksPerSec_def Let_def)

lemma parse_sample2:
  "parseStatLine decimalFloat ''cpu 200 0 100 1600 20 0 0'' =
     Inr \<lparr>CPU = ''cpu-total'', User = 2, System = 1, Idle = 16, Nice = 0, Iowait = 1 / 5,
          Irq = 0, Softirq = 0, Steal = 0, Guest = 0, GuestNice = 0\<rparr>"
  by (simp add: parseStatLine_def string_eval number_eval bnd_def ClocksPerSec_def Let_def)

lemma times_sample1:
  "TimesWithContext decimalFloat (Inr statSample1) False =
     Inr [\<lparr>CPU = ''cpu-total'', User = 1, System = 1 / 2, Idle = 8, Nice = 0, Iowait = 1 / 10,
          Irq = 0, Softirq = 0, Steal = 0, Guest = 0, GuestNice = 0\<rparr>]"
  by (simp add: TimesWithContext_def statSample1_def read_eval Trim_def parse_sample1)

lemma times_sample2:
  "TimesWithContext decimalFloat (Inr statSample2) False =
     Inr [\<lparr>CPU = ''cpu-total'', User = 2, System = 1, Idle = 16, Nice = 0, Iowait = 1 / 5,
          Irq = 0, Softirq = 0, Steal = 0, Guest = 0, GuestNice = 0\<rparr>]"
  by (simp add: TimesWithContext_def statSample2_def read_eval Trim_def parse_sample2)

lemma percent_samples:
  "PercentWithContext decimalFloat (Inr statSample1) None (Inr statSample2) 1 False emptyCache
     = (Inr [125 / 8], emptyCache)"
  by (simp add: PercentWithContext_def times_sample1 times_sample2 busy_eval Let_def)


subsection \<open>Instances of the engine's properties\<close>


theorem calculateBusy_regression_and_saturation_witness:
  "(snd (getAllBusy busyB) \<le> snd (getAllBusy busyA) \<and> calculateBusy busyA busyB = 0)
   \<and> (snd (getAllBusy busyC) < snd (getAllBusy busyD)
       \<and> fst (getAllBusy busyD) \<le> fst (getAllBusy busyC) \<and> calculateBusy busyC busyD = 100)"
proof -
  have h1: "snd (getAllBusy busyB) \<le> snd (getAllBusy busyA)"
    by (simp add: getAllBusy_linux Total_def busyA_def busyB_def zeroTimes_def)
  have h2: "snd (getAllBusy busyC) < snd (getAllBusy busyD)
       \<and> fst (getAllBusy busyD) \<le> fst (getAllBusy busyC)"
    by (simp add: getAllBusy_linux Total_def busyC_def busyD_def zeroTimes_def)
  from calculateBusy_regression_and_saturation [of busyA busyB busyA] h1
  have c1: "calculateBusy busyA busyB = 0" by blast
  from calculateBusy_regression_and_saturation [of busyA busyD busyC] h2
  have c2: "calculateBusy busyC busyD = 100" by blast
  from h1 h2 c1 c2 show ?thesis by blast
qed

theorem calculateAllBusy_length_mismatch_witness:
  "length ([] :: TimesStat list) \<noteq> length [busyA]
   \<and> calculateAllBusy [] [busyA] = Inl (TwoCPUCounts 0 1)
   \<and> calculateAllBusy [] [busyA] \<noteq> Inr []"
proof -
  have h: "length ([] :: TimesStat list) \<noteq> length [busyA]" by simp
  from calculateAllBusy_length_mismatch [OF h] h show ?thesis by simp
qed

subsection \<open>The parser and the sampler\<close>

lemma bnd_Inr_iff: "bnd m f = Inr y \<longleftrightarrow> (\<exists>x. m = Inr x \<and> f x = Inr y)"
  by (cases m) (simp_all add: bnd_def)

lemma parseStatLine_CPU:
  assumes "parseStatLine pf line = Inr ct"
  shows "CPU ct = (if Fields line ! 0 = ''cpu'' then ''cpu-total'' else Fields line ! 0)"
  using assms
  by (auto simp: parseStatLine_def Let_def bnd_Inr_iff split: if_splits)

lemma Fields_cpu0: "Fields (''cpu0 '' @ r) ! 0 = ''cpu0''"
  by (simp add: Fields_def isSpace_def)

lemma Fields_cpu1: "Fields (''cpu1 '' @ r) ! 0 = ''cpu1''"
  by (simp add: Fields_def isSpace_def)

text \<open>
  Claim C7. With 100 clock ticks per second, and a float parser that reads the
  numerals of the line as their values, the aggregate line \<open>cpu 100 0 50 800 10 0 0\<close>
  parses to user 1.0, nice 0, system 0.5, idle 8.0, iowait 0.1, irq 0, softirq 0 under the
  identifier \<open>cpu-total\<close>; and whenever a line parses whose first field is \<open>cpu\<close>
  followed by a non-empty digit string, the identifier is that first field.
\<close>

theorem parseStatLine_aggregate_line:
  "(pf ''100'' = Inr 100 \<and> pf ''0'' = Inr 0 \<and> pf ''50'' = Inr 50 \<and> pf ''800'' = Inr 800
      \<and> pf ''10'' = Inr 10
     \<longrightarrow> parseStatLine pf ''cpu 100 0 50 800 10 0 0'' =
           Inr \<lparr>CPU = ''cpu-total'', User = 1, System = 1 / 2, Idle = 8, Nice = 0,
                Iowait = 1 / 10, Irq = 0, Softirq = 0, Steal = 0, Guest = 0, GuestNice = 0\<rparr>)
   \<and> (\<forall>line ct n. parseStatLine pf line = Inr ct \<and> Fields line ! 0 = ''cpu'' @ n \<and> n \<noteq> []
          \<and> list_all isDigit n \<longrightarrow> CPU ct = ''cpu'' @ n)"
proof (intro conjI impI allI)
  assume "pf ''100'' = Inr 100 \<and> pf ''0'' = Inr 0 \<and> pf ''50'' = Inr 50 \<and> pf ''800'' = Inr 800
      \<and> pf ''10'' = Inr 10"
  then show "parseStatLine pf ''cpu 100 0 50 800 10 0 0'' =
           Inr \<lparr>CPU = ''cpu-total'', User = 1, System = 1 / 2, Idle = 8, Nice = 0,
                Iowait = 1 / 10, Irq = 0, Softirq = 0, Steal = 0, Guest = 0, GuestNice = 0\<rparr>"
    by (simp add: parseStatLine_def string_eval bnd_def ClocksPerSec_def Let_def)
next
  fix line ct n
  assume a: "parseStatLine pf line = Inr ct \<and> Fields line ! 0 = ''cpu'' @ n \<and> n \<noteq> []
          \<and> list_all isDigit n"
  then have ne: "Fields line ! 0 \<noteq> ''cpu''" by auto
  from a parseStatLine_CPU [of pf line ct]
  have "CPU ct = (if Fields line ! 0 = ''cpu'' then ''cpu-total'' else Fields line ! 0)"
    by blast
  with ne have "CPU ct = Fields line ! 0" by (simp only: if_False)
  with a show "CPU ct = ''cpu'' @ n" by (simp only:)
qed

lemma decimalFloat_numerals:
  "decimalFloat ''100'' = Inr 100" "decimalFloat ''0'' = Inr 0" "decimalFloat ''50'' = Inr 50"
  "decimalFloat ''800'' = Inr 800" "decimalFloat ''10'' = Inr 10"
  by (simp_all add: number_eval)

lemma parse_cpu0:
  "parseStatLine decimalFloat ''cpu0 1 2 3 4 5 6 7'' =
     Inr \<lparr>CPU = ''cpu0'', User = 1 / 100, System = 3 / 100, Idle = 1 / 25, Nice = 1 / 50,
          Iowait = 1 / 20, Irq = 3 / 50, Softirq = 7 / 100, Steal = 0, Guest = 0,
          GuestNice = 0\<rparr>"
  by (simp add: parseStatLine_def string_eval number_eval bnd_def ClocksPerSec_def Let_def)

lemma parse_cpu1:
  "parseStatLine decimalFloat ''cpu1 1 2 3 4 5 6 7 8 9 10'' =
     Inr \<lparr>CPU = ''cpu1'', User = 1 / 100, System = 3 / 100, Idle = 1 / 25, Nice = 1 / 50,
          Iowait = 1 / 20, Irq = 3 / 50, Softirq = 7 / 100, Steal = 2 / 25, Guest = 9 / 100,
          GuestNice = 1 / 10\<rparr>"
  by (simp add: parseStatLine_def string_eval number_eval bnd_def ClocksPerSec_def Let_def)

lemma fields_cpu0_sample: "Fields ''cpu0 1 2 3 4 5 6 7'' ! 0 = ''cpu'' @ ''0''"
  by (simp add: string_eval)

theorem parseStatLine_aggregate_line_witness:
  "parseStatLine decimalFloat ''cpu 100 0 50 800 10 0 0'' =
           Inr \<lparr>CPU = ''cpu-total'', User = 1, System = 1 / 2, Idle = 8, Nice = 0,
                Iowait = 1 / 10, Irq = 0, Softirq = 0, Steal = 0, Guest = 0, GuestNice = 0\<rparr>
   \<and> Fields ''cpu0 1 2 3 4 5 6 7'' ! 0 = ''cpu'' @ ''0''
   \<and> list_all isDigit ''0''
   \<and> CPU \<lparr>CPU = ''cpu0'', User = 1 / 100, System = 3 / 100, Idle = 1 / 25, Nice = 1 / 50,
          Iowait = 1 / 20, Irq = 3 / 50, Softirq = 7 / 100, Steal = 0, Guest = 0,
          GuestNice = 0\<rparr> = ''cpu'' @ ''0''"
proof -
  note inst = parseStatLine_aggregate_line [of decimalFloat]
  have d: "list_all isDigit ''0''" "''0'' \<noteq> []" by (simp_all add: isDigit_def)
  from inst decimalFloat_numerals
  have c1: "parseStatLine decimalFloat ''cpu 100 0 50 800 10 0 0'' =
           Inr \<lparr>CPU = ''cpu-total'', User = 1, System = 1 / 2, Idle = 8, Nice = 0,
                Iowait = 1 / 10, Irq = 0, Softirq = 0, Steal = 0, Guest = 0, GuestNice = 0\<rparr>"
    by blast
  from inst parse_cpu0 fields_cpu0_sample d
  have c2: "CPU \<lparr>CPU = ''cpu0'', User = 1 / 100, System = 3 / 100, Idle = 1 / 25, Nice = 1 / 50,
          Iowait = 1 / 20, Irq = 3 / 50, Softirq = 7 / 100, Steal = 0, Guest = 0,
          GuestNice = 0\<rparr> = ''cpu'' @ ''0''"
    by blast
  from c1 c2 fields_cpu0_sample d show ?thesis by blast
qed

lemma TimesWithContext_percpu_lines:
  assumes "ReadLines stat = (l0 # l1 # rest, None)"
  shows "TimesWithContext pf stat True = Inr (parsedLines pf (leadingCpuLines (l1 # rest)))"
  using assms by (simp add: TimesWithContext_def)

text \<open>
  Claim C8. When the stat file reads as the lines \<open>cpu ...\<close>, \<open>cpu0 ...\<close>, \<open>cpu1 ...\<close>,
  \<open>intr 12345 ...\<close> (and whatever follows), the two core lines being lines that parse,
  per-core sampling returns exactly two elements, for \<open>cpu0\<close> and \<open>cpu1\<close> in this
  order: the first line is skipped, and the loop stops at the \<open>intr\<close> line.
\<close>

theorem TimesWithContext_percpu_stop:
  assumes "ReadLines stat =
             (l0 # (''cpu0 '' @ r0) # (''cpu1 '' @ r1) # (''intr 12345'' @ r2) # others, None)"
    and "parseStatLine pf (''cpu0 '' @ r0) = Inr c0"
    and "parseStatLine pf (''cpu1 '' @ r1) = Inr c1"
  shows "TimesWithContext pf stat True = Inr [c0, c1] \<and> CPU c0 = ''cpu0'' \<and> CPU c1 = ''cpu1''"
proof -
  have "TimesWithContext pf stat True = Inr [c0, c1]"
    using assms by (simp add: TimesWithContext_percpu_lines HasPrefix_def)
  moreover have "CPU c0 = ''cpu0''"
    using parseStatLine_CPU [OF assms(2)] Fields_cpu0 [of r0] by simp
  moreover have "CPU c1 = ''cpu1''"
    using parseStatLine_CPU [OF assms(3)] Fields_cpu1 [of r1] by simp
  ultimately show ?thesis by simp
qed

lemma readLines_statPerCore:
  "ReadLines (Inr statPerCore) =
     (''cpu 2 4 6 8 10 12 14'' # (''cpu0 '' @ ''1 2 3 4 5 6 7'')
        # (''cpu1 '' @ ''1 2 3 4 5 6 7 8 9 10'') # (''intr 12345'' @ '' 5'') # [], None)"
  by (simp add: statPerCore_def read_eval Trim_def)

theorem TimesWithContext_percpu_stop_witness:
  "TimesWithContext decimalFloat (Inr statPerCore) True =
     Inr [\<lparr>CPU = ''cpu0'', User = 1 / 100, System = 3 / 100, Idle = 1 / 25, Nice = 1 / 50,
           Iowait = 1 / 20, Irq = 3 / 50, Softirq = 7 / 100, Steal = 0, Guest = 0,
           GuestNice = 0\<rparr>,
          \<lparr>CPU = ''cpu1'', User = 1 / 100, System = 3 / 100, Idle = 1 / 25, Nice = 1 / 50,
           Iowait = 1 / 20, Irq = 3 / 50, Softirq = 7 / 100, Steal = 2 / 25, Guest = 9 / 100,
           GuestNice = 1 / 10\<rparr>]"
proof -
  have p0: "parseStatLine decimalFloat (''cpu0 '' @ ''1 2 3 4 5 6 7'') = 
     Inr \<lparr>CPU = ''cpu0'', User = 1 / 100, System = 3 / 100, Idle = 1 / 25, Nice = 1 / 50,
          Iowait = 1 / 20, Irq = 3 / 50, Softirq = 7 / 100, Steal = 0, Guest = 0,
          GuestNice = 0\<rparr>"
    using parse_cpu0 by simp
  have p1: "parseStatLine decimalFloat (''cpu1 '' @ ''1 2 3 4 5 6 7 8 9 10'') =
     Inr \<lparr>CPU = ''cpu1'', User = 1 / 100, System = 3 / 100, Idle = 1 / 25, Nice = 1 / 50,
          Iowait = 1 / 20, Irq = 3 / 50, Softirq = 7 / 100, Steal = 2 / 25, Guest = 9 / 100,
          GuestNice = 1 / 10\<rparr>"
    using parse_cpu1 by simp
  from TimesWithContext_percpu_stop [OF readLines_statPerCore p0 p1]
  show ?thesis by (rule conjunct1)
qed

subsection \<open>Percentages and the cache\<close>

lemma TimesWithContext_total: "\<exists>ct. TimesWithContext pf stat percpu = Inr ct"
  by (simp add: TimesWithContext_def Let_def split: prod.splits)

lemma TimesWithContext_unreadable: "TimesWithContext pf (Inl e) percpu = Inr []"
  by (simp add: TimesWithContext_def read_eval parseStatLine_def Fields_def)

lemma calculateAllBusy_not_LastTimesNil: "calculateAllBusy a b \<noteq> Inl LastTimesNil"
  by (simp add: calculateAllBusy_def)

lemma Percent_unreadable:
  assumes "0 < interval"
  shows "Percent pf (Inl e1) (Inl e2) interval percpu s = (Inr [], s)"
  using assms
  by (simp add: Percent_def PercentWithContext_def TimesWithContext_unreadable
      calculateAllBusy_def)

text \<open>
  Claim C9. \<open>PercentTotal\<close> takes element 0 of what \<open>Percent\<close> returns without a
  check: when the list is not empty the result is its first percentage; when it is
  empty the access is out of range, a panic and not an error return. The latter
  happens for a positive interval with the stat file unreadable at both samples: both
  samples are empty and the difference is the empty list with no error.
\<close>

theorem PercentTotal_first_element_or_panic:
  "(\<forall>x xs s'. Percent pf stat1 stat2 interval False s = (Inr (x # xs), s')
       \<longrightarrow> PercentTotal pf stat1 stat2 interval s = (Inr x, s'))
   \<and> (\<forall>s'. Percent pf stat1 stat2 interval False s = (Inr [], s')
       \<longrightarrow> PercentTotal pf stat1 stat2 interval s = (Inl (Panic IndexOutOfRange), s'))
   \<and> (0 < interval
       \<longrightarrow> Percent pf (Inl e1) (Inl e2) interval False s = (Inr [], s)
           \<and> PercentTotal pf (Inl e1) (Inl e2) interval s = (Inl (Panic IndexOutOfRange), s))"
  by (simp add: PercentTotal_def index_def Percent_unreadable)

theorem PercentTotal_first_element_or_panic_witness:
  "Percent decimalFloat (Inr statSample1) (Inr statSample2) 1 False emptyCache
     = (Inr [125 / 8], emptyCache)
   \<and> PercentTotal decimalFloat (Inr statSample1) (Inr statSample2) 1 emptyCache
     = (Inr (125 / 8), emptyCache)
   \<and> (0 :: int) < 1
   \<and> Percent decimalFloat (Inl ErrNotExist) (Inl ErrNotExist) 1 False emptyCache
     = (Inr [], emptyCache)
   \<and> PercentTotal decimalFloat (Inl ErrNotExist) (Inl ErrNotExist) 1 emptyCache
     = (Inl (Panic IndexOutOfRange), emptyCache)"
proof -
  have h1: "Percent decimalFloat (Inr statSample1) (Inr statSample2) 1 False emptyCache
     = (Inr [125 / 8], emptyCache)"
    by (simp add: Percent_def percent_samples)
  have h2: "(0 :: int) < 1" by simp
  from PercentTotal_first_element_or_panic
         [of decimalFloat "Inr statSample1" "Inr statSample2" 1 emptyCache] h1
  have c1: "PercentTotal decimalFloat (Inr statSample1) (Inr statSample2) 1 emptyCache
     = (Inr (125 / 8), emptyCache)"
    by blast
  from PercentTotal_first_element_or_panic
         [of decimalFloat "Inl ErrNotExist" "Inl ErrNotExist" 1 emptyCache ErrNotExist ErrNotExist] h2
  have c2: "Percent decimalFloat (Inl ErrNotExist) (Inl ErrNotExist) 1 False emptyCache
     = (Inr [], emptyCache)
   \<and> PercentTotal decimalFloat (Inl ErrNotExist) (Inl ErrNotExist) 1 emptyCache
     = (Inl (Panic IndexOutOfRange), emptyCache)"
    by blast
  from h1 h2 c1 c2 show ?thesis by blast
qed

lemma init_fills_slots: "slot percpu (init pf stat_a stat_b) \<noteq> None"
  using TimesWithContext_total [of pf stat_a False] TimesWithContext_total [of pf stat_b True]
  by (auto simp: init_def slot_def)

text \<open>
  Claim C10. In since-last-call mode the slot of the requested mode is overwritten
  with the fresh sample before the old value is tested, whatever the slot holds: after
  the call the slot holds the sample and the other slot is as before. On an empty slot
  the call fails with the no-baseline error; on a filled slot it returns the difference
  between the old value and the sample. In both cases the next since-last-call request
  of the same mode is the difference between the stored sample and its own sample: it
  does not fail with the no-baseline error.
\<close>

theorem since_last_call_fills_cache_before_check:
  "\<exists>ct. TimesWithContext pf stat percpu = Inr ct
      \<and> snd (percentUsedFromLastCallWithContext pf stat percpu s)
          = (if percpu then s\<lparr>lastPerCPUTimes := Some ct\<rparr> else s\<lparr>lastCPUTimes := Some ct\<rparr>)
      \<and> slot percpu (snd (percentUsedFromLastCallWithContext pf stat percpu s)) = Some ct
      \<and> slot (\<not> percpu) (snd (percentUsedFromLastCallWithContext pf stat percpu s))
          = slot (\<not> percpu) s
      \<and> (slot percpu s = None
           \<longrightarrow> fst (percentUsedFromLastCallWithContext pf stat percpu s) = Inl LastTimesNil)
      \<and> (\<forall>lt. slot percpu s = Some lt
           \<longrightarrow> fst (percentUsedFromLastCallWithContext pf stat percpu s)
                 = calculateAllBusy lt ct)
      \<and> (\<exists>ct'. TimesWithContext pf stat' percpu = Inr ct'
            \<and> fst (percentUsedFromLastCallWithContext pf stat' percpu
                     (snd (percentUsedFromLastCallWithContext pf stat percpu s)))
                = calculateAllBusy ct ct')
      \<and> fst (percentUsedFromLastCallWithContext pf stat' percpu
                (snd (percentUsedFromLastCallWithContext pf stat percpu s)))
          \<noteq> Inl LastTimesNil
      \<and> (interval \<le> 0 \<longrightarrow>
            PercentWithContext pf stat sleep stat2 interval percpu s
              = percentUsedFromLastCallWithContext pf stat percpu s)"
proof -
  obtain ct where ct: "TimesWithContext pf stat percpu = Inr ct"
    using TimesWithContext_total by blast
  obtain ct' where ct': "TimesWithContext pf stat' percpu = Inr ct'"
    using TimesWithContext_total by blast
  have after: "snd (percentUsedFromLastCallWithContext pf stat percpu s)
          = (if percpu then s\<lparr>lastPerCPUTimes := Some ct\<rparr> else s\<lparr>lastCPUTimes := Some ct\<rparr>)"
    using ct by (auto simp: percentUsedFromLastCallWithContext_def split: option.splits)
  have filled: "slot percpu (snd (percentUsedFromLastCallWithContext pf stat percpu s)) = Some ct"
    by (simp add: after slot_def)
  have other: "slot (\<not> percpu) (snd (percentUsedFromLastCallWithContext pf stat percpu s))
          = slot (\<not> percpu) s"
    by (simp add: after slot_def)
  have empty: "slot percpu s = None
           \<longrightarrow> fst (percentUsedFromLastCallWithContext pf stat percpu s) = Inl LastTimesNil"
    using ct by (auto simp: percentUsedFromLastCallWithContext_def slot_def split: if_splits)
  have diff: "\<forall>lt. slot percpu s = Some lt
           \<longrightarrow> fst (percentUsedFromLastCallWithContext pf stat percpu s)
                 = calculateAllBusy lt ct"
    using ct by (auto simp: percentUsedFromLastCallWithContext_def slot_def split: if_splits)
  have second: "fst (percentUsedFromLastCallWithContext pf stat' percpu
                     (snd (percentUsedFromLastCallWithContext pf stat percpu s)))
                = calculateAllBusy ct ct'"
  proof (cases percpu)
    case True
    with after have "snd (percentUsedFromLastCallWithContext pf stat percpu s)
                       = s\<lparr>lastPerCPUTimes := Some ct\<rparr>"
      by simp
    then show ?thesis
      using ct' True by (simp add: percentUsedFromLastCallWithContext_def)
  next
    case False
    with after have "snd (percentUsedFromLastCallWithContext pf stat percpu s)
                       = s\<lparr>lastCPUTimes := Some ct\<rparr>"
      by simp
    then show ?thesis
      using ct' False by (simp add: percentUsedFromLastCallWithContext_def)
  qed
  then have no_nil: "fst (percentUsedFromLastCallWithContext pf stat' percpu
                (snd (percentUsedFromLastCallWithContext pf stat percpu s)))
          \<noteq> Inl LastTimesNil"
    by (simp add: calculateAllBusy_not_LastTimesNil)
  have mode: "interval \<le> 0 \<longrightarrow>
                PercentWithContext pf stat sleep stat2 interval percpu s
                  = percentUsedFromLastCallWithContext pf stat percpu s"
    by (simp add: PercentWithContext_def)
  have inner: "\<exists>ct'. TimesWithContext pf stat' percpu = Inr ct'
            \<and> fst (percentUsedFromLastCallWithContext pf stat' percpu
                     (snd (percentUsedFromLastCallWithContext pf stat percpu s)))
                = calculateAllBusy ct ct'"
    using ct' second by blast
  show ?thesis
    by (rule exI [of _ ct], intro conjI)
      (fact ct after filled other empty diff inner no_nil mode)+
qed

lemma since_last_sample1:
  "percentUsedFromLastCallWithContext decimalFloat (Inr statSample1) False emptyCache =
     (Inl LastTimesNil,
      emptyCache\<lparr>lastCPUTimes := Some
        [\<lparr>CPU = ''cpu-total'', User = 1, System = 1 / 2, Idle = 8, Nice = 0, Iowait = 1 / 10,
          Irq = 0, Softirq = 0, Steal = 0, Guest = 0, GuestNice = 0\<rparr>]\<rparr>)"
  by (simp add: percentUsedFromLastCallWithContext_def times_sample1 emptyCache_def)

lemma since_last_sample2:
  "percentUsedFromLastCallWithContext decimalFloat (Inr statSample2) False
     (emptyCache\<lparr>lastCPUTimes := Some
        [\<lparr>CPU = ''cpu-total'', User = 1, System = 1 / 2, Idle = 8, Nice = 0, Iowait = 1 / 10,
          Irq = 0, Softirq = 0, Steal = 0, Guest = 0, GuestNice = 0\<rparr>]\<rparr>) =
     (Inr [125 / 8],
      emptyCache\<lparr>lastCPUTimes := Some
        [\<lparr>CPU = ''cpu-total'', User = 2, System = 1, Idle = 16, Nice = 0, Iowait = 1 / 5,
          Irq = 0, Softirq = 0, Steal = 0, Guest = 0, GuestNice = 0\<rparr>]\<rparr>)"
  by (simp add: percentUsedFromLastCallWithContext_def times_sample2 emptyCache_def busy_eval)

text \<open>
  The instance: a first call on the empty cache, which fails and stores its sample,
  and a second call on the cache that the first one leaves, which diffs against that
  sample and stores its own.
\<close>

theorem since_last_call_fills_cache_before_check_witness:
  "slot False emptyCache = None
   \<and> fst (percentUsedFromLastCallWithContext decimalFloat (Inr statSample1) False emptyCache)
       = Inl LastTimesNil
   \<and> slot False (snd (percentUsedFromLastCallWithContext decimalFloat (Inr statSample1) False
                        emptyCache))
       = Some [\<lparr>CPU = ''cpu-total'', User = 1, System = 1 / 2, Idle = 8, Nice = 0,
                Iowait = 1 / 10, Irq = 0, Softirq = 0, Steal = 0, Guest = 0, GuestNice = 0\<rparr>]
   \<and> slot False (filledCache) = Some sampleTimes1
   \<and> fst (percentUsedFromLastCallWithContext decimalFloat (Inr statSample2) False filledCache)
       = calculateAllBusy sampleTimes1 sampleTimes2
   \<and> slot False (snd (percentUsedFromLastCallWithContext decimalFloat (Inr statSample2) False
                        filledCache))
       = Some sampleTimes2
   \<and> fst (percentUsedFromLastCallWithContext decimalFloat (Inr statSample2) False
            (snd (percentUsedFromLastCallWithContext decimalFloat (Inr statSample1) False
                    emptyCache)))
       \<noteq> Inl LastTimesNil"
proof -
  have t1: "TimesWithContext decimalFloat (Inr statSample1) False = Inr sampleTimes1"
    by (simp add: times_sample1 sampleTimes1_def)
  have t2: "TimesWithContext decimalFloat (Inr statSample2) False = Inr sampleTimes2"
    by (simp add: times_sample2 sampleTimes2_def)
  have h1: "slot False emptyCache = None"
    by (simp add: slot_def emptyCache_def)
  have h2: "slot False filledCache = Some sampleTimes1"
    by (simp add: slot_def filledCache_def)
  from since_last_call_fills_cache_before_check
         [of decimalFloat "Inr statSample1" False emptyCache "Inr statSample2" 0 None
             "Inr statSample2"] h1 t1
  have c1: "fst (percentUsedFromLastCallWithContext decimalFloat (Inr statSample1) False
                  emptyCache) = Inl LastTimesNil"
    and c2: "slot False (snd (percentUsedFromLastCallWithContext decimalFloat (Inr statSample1)
                  False emptyCache)) = Some sampleTimes1"
    and c3: "fst (percentUsedFromLastCallWithContext decimalFloat (Inr statSample2) False
            (snd (percentUsedFromLastCallWithContext decimalFloat (Inr statSample1) False
                    emptyCache)))
       \<noteq> Inl LastTimesNil"
    by auto
  from since_last_call_fills_cache_before_check
         [of decimalFloat "Inr statSample2" False filledCache "Inr statSample2" 0 None
             "Inr statSample2"] h2 t2
  have c4: "fst (percentUsedFromLastCallWithContext decimalFloat (Inr statSample2) False
                  filledCache) = calculateAllBusy sampleTimes1 sampleTimes2"
    and c5: "slot False (snd (percentUsedFromLastCallWithContext decimalFloat (Inr statSample2)
                  False filledCache)) = Some sampleTimes2"
    by auto
  from h1 h2 c1 c2 c3 c4 c5 show ?thesis
    by (simp add: sampleTimes1_def)
qed





subsection \<open>Boot time and the percentage of a process\<close>

lemma readBootTimeStat_hostWorld: "readBootTimeStat hostWorld = Inr 1000"
  by (simp add: readBootTimeStat_def hostWorld_def read_eval string_eval number_eval bnd_def)

lemma decimalFloat_uptime: "decimalFloat ''50.00'' = Inr 50"
  by (simp add: number_eval)

lemma readLines_uptime: "ReadLines (Inr ''50.00 100.00\<newline>'') = ([''50.00 100.00''], None)"
  by (simp add: read_eval Trim_def)

lemma BootTime_hostWorld:
  "BootTimeWithContext decimalFloat hostWorld False 0 = (Inr 1950, 0)"
proof -
  have u: "ReadLines (procUptime hostWorld) = ([''50.00 100.00''], None)"
    by (simp add: hostWorld_def readLines_uptime)
  have f: "Fields ''50.00 100.00'' = [''50.00'', ''100.00'']"
    by (simp add: string_eval)
  have v: "virtualization hostWorld = ([], [])" and n: "nowNano hostWorld = 2000000000000"
    by (simp_all add: hostWorld_def)
  show ?thesis
    by (simp add: BootTimeWithContext_def readBootTimeStat_hostWorld u f v n index_def
        decimalFloat_uptime uint64_of_float_def)
qed

lemma splitProcStat_sample:
  "splitProcStat ''1 (a b) S 0 1 1 0 -1 4194560 10 20 30 40 1500 0 0 0 20 0 1 0 4000 1000 2 3''
   = Inr [[], ''1'', ''a b'', ''S'', ''0'', ''1'', ''1'', ''0'', ''-1'', ''4194560'', ''10'', ''20'',
          ''30'', ''40'', ''1500'', ''0'', ''0'', ''0'', ''20'', ''0'', ''1'', ''0'', ''4000'', ''1000'',
          ''2'', ''3'']"
  by (simp add: splitProcStat_def slice_def LastIndexByte_def string_eval bnd_def Let_def)

lemma fill_hostWorld:
  "fillFromTIDStatWithContext decimalFloat hostWorld 0 twoCores =
     Inr \<lparr>terminal = 0, ppid = 0,
        cpuTimes = (zeroTimes ''cpu'')\<lparr>User := 15\<rparr>,
        createTime = 1990000, rtpriority = 0, nice = 20,
        faults = \<lparr>MinorFaults = 10, MajorFaults = 30, ChildMinorFaults = 20,
                  ChildMajorFaults = 40\<rparr>\<rparr>"
proof -
  have p: "pidStat hostWorld = Inr ''1 (a b) S 0 1 1 0 -1 4194560 10 20 30 40 1500 0 0 0 20 0 1 0 4000 1000 2 3''"
     and pr: "priority hostWorld = 20"
    by (simp_all add: hostWorld_def)
  show ?thesis
    by (simp add: fillFromTIDStatWithContext_def p pr splitProcStat_sample lift_err_def bnd_def
        index_def number_eval BootTime_hostWorld enableBootTimeCache_def clockTicks_def
        zeroTimes_def Let_def)
qed

lemma CPUPercentWithContext_hostWorld:
  "CPUPercentWithContext decimalFloat hostWorld hostWorld 2000000000000 0 twoCores = Inr 150"
  by (simp add: CPUPercentWithContext_def createTimeWithContext_def proc_TimesWithContext_def
      fillFromStatWithContext_def fill_hostWorld bnd_def sinceSeconds_def Total_def zeroTimes_def
      Let_def)

lemma Count_twoCores: "Count (set' twoCores) = 2"
  by (simp add: Count_def twoCores_def)

lemma CPUPercent_hostWorld:
  "CPUPercent decimalFloat hostWorld hostWorld 2000000000000 0 twoCores = Inr (3 / 4)"
  by (simp add: CPUPercent_def cpuPercent_def CPUPercentWithContext_hostWorld bnd_def
      Count_twoCores)

lemma CPUPercentWithContext_raw:
  assumes "createTimeWithContext pf w1 cached p = Inr c"
    and "proc_TimesWithContext pf w2 cached p = Inr cput"
    and "0 < sinceSeconds now (sint (c * 1000000))"
  shows "CPUPercentWithContext pf w1 w2 now cached p
           = Inr (100 * Total cput / sinceSeconds now (sint (c * 1000000)))"
  using assms by (simp add: CPUPercentWithContext_def bnd_def Let_def)

lemma CPUPercent_of_raw:
  assumes "CPUPercentWithContext pf w1 w2 now cached p = Inr R"
  shows "CPUPercent pf w1 w2 now cached p = Inr (R / (real (Count (set' p)) * 100))"
  using assms by (simp add: CPUPercent_def cpuPercent_def bnd_def)

text \<open>
  Claim C1, as the code has it. The raw percentage of the lifetime is
  \<open>100 * total CPU seconds / seconds since the start\<close>. For a handle with \<open>N \<ge> 1\<close> CPUs in
  its affinity set and the raw percentage \<open>R\<close>, \<open>CPUPercent\<close> returns \<open>R / (N * 100)\<close>: the
  fraction of the \<open>N\<close> CPUs that is in use, between 0 and 1 for a process that stays
  on its CPUs, not a percentage. Two CPUs at 150 percent raw usage give 0.75.
\<close>

theorem CPUPercent_fraction_of_allowed_cores:
  "(createTimeWithContext pf w1 cached p = Inr c \<and> proc_TimesWithContext pf w2 cached p = Inr cput
      \<and> 0 < sinceSeconds now (sint (c * 1000000))
     \<longrightarrow> CPUPercentWithContext pf w1 w2 now cached p
           = Inr (100 * Total cput / sinceSeconds now (sint (c * 1000000))))
   \<and> (CPUPercentWithContext pf w1 w2 now cached p = Inr R \<and> 1 \<le> Count (set' p)
     \<longrightarrow> CPUPercent pf w1 w2 now cached p = Inr (R / (real (Count (set' p)) * 100)))"
  using CPUPercentWithContext_raw CPUPercent_of_raw by blast

theorem CPUPercent_fraction_of_allowed_cores_witness:
  "CPUPercentWithContext decimalFloat hostWorld hostWorld 2000000000000 0 twoCores = Inr 150
   \<and> 1 \<le> Count (set' twoCores)
   \<and> CPUPercent decimalFloat hostWorld hostWorld 2000000000000 0 twoCores
       = Inr (150 / (real (Count (set' twoCores)) * 100))"
proof -
  have h1: "CPUPercentWithContext decimalFloat hostWorld hostWorld 2000000000000 0 twoCores
              = Inr 150"
    by (rule CPUPercentWithContext_hostWorld)
  have h2: "1 \<le> Count (set' twoCores)"
    by (simp add: Count_twoCores)
  from CPUPercent_fraction_of_allowed_cores
         [of decimalFloat hostWorld 0 twoCores _ hostWorld _ 2000000000000 150] h1 h2
  have "CPUPercent decimalFloat hostWorld hostWorld 2000000000000 0 twoCores
       = Inr (150 / (real (Count (set' twoCores)) * 100))"
    by blast
  with h1 h2 show ?thesis by blast
qed

text \<open>
  Claim C1, as stated, fails: two CPUs and a raw percentage of 150 give 0.75, not 75.
\<close>

theorem CPUPercent_two_cores_counterexample:
  "CPUPercentWithContext decimalFloat hostWorld hostWorld 2000000000000 0 twoCores = Inr 150
   \<and> Count (set' twoCores) = 2
   \<and> CPUPercent decimalFloat hostWorld hostWorld 2000000000000 0 twoCores = Inr (3 / 4)
   \<and> CPUPercent decimalFloat hostWorld hostWorld 2000000000000 0 twoCores \<noteq> Inr (150 / 2)"
  by (simp add: CPUPercentWithContext_hostWorld Count_twoCores CPUPercent_hostWorld)

text \<open>
  Claim C2, at a host that is neither an lxc nor a docker guest: the stat file gives
  the boot time 1000, the uptime file says 50 seconds at the clock 2000. The stat
  branch has no return, so the call goes on to the uptime file and returns 1950;
  with the cache enabled, 1950 is also what the cache keeps.
\<close>

theorem BootTimeWithContext_host_returns_uptime_value:
  "virtualization hostWorld = ([], [])
   \<and> readBootTimeStat hostWorld = Inr 1000
   \<and> BootTimeWithContext decimalFloat hostWorld False 0 = (Inr 1950, 0)
   \<and> BootTimeWithContext decimalFloat hostWorld True 0 = (Inr 1950, 1950)"
proof -
  have v: "virtualization hostWorld = ([], [])" and n: "nowNano hostWorld = 2000000000000"
    by (simp_all add: hostWorld_def)
  have u: "ReadLines (procUptime hostWorld) = ([''50.00 100.00''], None)"
    by (simp add: hostWorld_def readLines_uptime)
  have f: "Fields ''50.00 100.00'' = [''50.00'', ''100.00'']"
    by (simp add: string_eval)
  have "BootTimeWithContext decimalFloat hostWorld True 0 = (Inr 1950, 1950)"
    by (simp add: BootTimeWithContext_def readBootTimeStat_hostWorld u f v n index_def
        decimalFloat_uptime uint64_of_float_def)
  with v readBootTimeStat_hostWorld BootTime_hostWorld show ?thesis by simp
qed

theorem BootTimeWithContext_host_returns_uptime_value_witness:
  "readBootTimeStat hostWorld = Inr 1000
   \<and> BootTimeWithContext decimalFloat hostWorld False 0 = (Inr 1950, 0)"
  using BootTimeWithContext_host_returns_uptime_value by blast

text \<open>
  The same in general: without the cache, a host whose stat file yields a boot time
  gets what a docker guest on the same machine gets. The value from the stat file
  is not used.
\<close>

lemma handleBootTimeFileReadErr_virtualization:
  "handleBootTimeFileReadErr (w\<lparr>virtualization := v\<rparr>) err = handleBootTimeFileReadErr w err"
  by (simp add: handleBootTimeFileReadErr_def split: sum.splits)

lemma BootTimeWithContext_stat_value_unused:
  assumes "readBootTimeStat w = Inr t"
  shows "BootTimeWithContext pf w False cached
           = BootTimeWithContext pf (w\<lparr>virtualization := (''docker'', ''guest'')\<rparr>) False cached"
proof (cases "virtualization w")
  case (Pair system role)
  with assms show ?thesis
    by (simp add: BootTimeWithContext_def handleBootTimeFileReadErr_virtualization Let_def
             split: prod.splits option.splits sum.splits)
qed

text \<open>
  Claim C6, at records with a missing part: a record that ends after six fields, so
  that field 7 is missing, and a record without the parentheses around the name. The
  call panics (index out of range, slice bounds out of range): it returns no error.
\<close>

theorem fillFromTIDStat_missing_field_panics:
  "fillFromTIDStatWithContext pf (w\<lparr>pidStat := Inr ''1 (a) S 0 1 1''\<rparr>) cached p
     = Inl (Panic IndexOutOfRange)
   \<and> fillFromTIDStatWithContext pf
         (w\<lparr>pidStat := Inr ''1 a S 0 1 1 0 -1 4194560 10 20 30 40 1500 0 0 0 20 0 1 0 4000 1000 2 3''\<rparr>)
         cached p
     = Inl (Panic SliceBoundsOutOfRange)"
  by (simp add: fillFromTIDStatWithContext_def splitProcStat_def slice_def LastIndexByte_def
      string_eval bnd_def Let_def lift_err_def index_def)

theorem fillFromTIDStat_missing_field_panics_witness:
  "fillFromTIDStatWithContext decimalFloat (hostWorld\<lparr>pidStat := Inr ''1 (a) S 0 1 1''\<rparr>) 0
     twoCores = Inl (Panic IndexOutOfRange)"
  using fillFromTIDStat_missing_field_panics [of decimalFloat hostWorld 0 twoCores] by blast

text \<open>
  A required field that is present and does not parse is returned as the error of
  the conversion; here the terminal, field 7.
\<close>

lemma fillFromTIDStat_unparseable_terminal:
  assumes "pidStat w = Inr contents" and "splitProcStat contents = Inr fs"
    and "7 < length fs" and "ParseUint (fs ! 7) 64 = Inl e"
  shows "fillFromTIDStatWithContext pf w cached p = Inl (Error e)"
  using assms
  by (simp add: fillFromTIDStatWithContext_def bnd_def lift_err_def index_def)

end
